theory Spec2Isabelle
  imports Complex_Main "HOL-Library.Word"
begin

section \<open>Values shared by the pipeline and the backends\<close>

text \<open>
  A JavaScript \<^verbatim>\<open>Error\<close> carries its message. A promise that has settled
  is either fulfilled or rejected with an error; the values promises resolve to are
  never read by the rendering code and are left out.
\<close>

datatype error = Error string

datatype outcome = Fulfilled | Rejected error

text \<open>
  \<^verbatim>\<open>Vector2\<close> (lib/math/vector2) holds two JavaScript numbers, here a width
  and a height. The numbers are taken as reals: they may be negative or fractional;
  NaN and the infinities are left out.
\<close>

datatype vector2 = Vector2 (vec_x: real) (vec_y: real)

text \<open>
  Modelled from the spec: \<^verbatim>\<open>Vector2.equals\<close> is defined in lib/math/vector2,
  which is not among the sources. The spec (4.4, step 4) says the resize is skipped
  "if resolved size equals current size": equality of both components.
\<close>

definition equals :: "vector2 \<Rightarrow> vector2 \<Rightarrow> bool" where
  "equals v w = (vec_x v = vec_x w \<and> vec_y v = vec_y w)"

text \<open>
  Pixels are premultiplied RGBA quadruples; \<open>over\<close> is the source-over compositing
  of the 2D context, per channel \<open>s + d * (255 - alpha s) / 255\<close>.
\<close>

datatype pixel = Pixel nat nat nat nat

definition transparent :: pixel where
  "transparent = Pixel 0 0 0 0"

fun over :: "pixel \<Rightarrow> pixel \<Rightarrow> pixel" where
  "over (Pixel sr sg sb sa) (Pixel dr dg db da) =
     Pixel (sr + dr * (255 - sa) div 255) (sg + dg * (255 - sa) div 255)
           (sb + db * (255 - sa) div 255) (sa + da * (255 - sa) div 255)"

text \<open>
  A drawable surface: an image or a canvas element, with its size and its bitmap.
  The attributes \<^verbatim>\<open>width\<close> and \<^verbatim>\<open>height\<close> of the platform are unsigned
  longs limited to the values from 0 to 2147483647 (\<open>2^31 - 1\<close>): 31 bits.
\<close>

record surface =
  width :: "31 word"
  height :: "31 word"
  bitmap :: "nat \<Rightarrow> nat \<Rightarrow> pixel"

type_synonym image = surface

section \<open>The operation contract and the renderer contract\<close>

text \<open>
  An operation of the stack, over a renderer whose state has type \<open>'r\<close>.
  \<open>validateSettings\<close> is the settled result of the promise the method returns; it
  is not handed the renderer. \<open>op_render\<close> is the method \<^verbatim>\<open>render(renderer)\<close>:
  it mutates the renderer and settles, and what it did to the renderer stays also
  when it rejects. \<open>render_pending\<close> tells whether bluebird finds the result of
  \<^verbatim>\<open>render\<close> pending when the call returns: a promise that is not settled yet
  (an operation that waits for an asset), and also any promise or thenable that is
  not bluebird's own, which the library can only follow asynchronously even when it
  is settled. It is false for a plain value and for a settled bluebird promise.
\<close>

record 'r operation =
  op_identifier :: string
  validateSettings :: outcome
  op_render :: "'r \<Rightarrow> outcome \<times> 'r"
  render_pending :: bool

datatype backend = WebGL | Canvas

text \<open>
  What the pipeline calls on its collaborators, in the order of the calls. The trace
  records the calls the pipeline itself makes; what an operation does inside its
  \<^verbatim>\<open>render\<close> is part of that operation's effect on the renderer state.
\<close>

datatype event =
    IsSupported backend
  | NewRenderer backend vector2
  | DrawImage
  | RenderInvoked nat
  | RenderSettled nat outcome
  | RenderFinal
  | GetSize
  | ResizeTo vector2
  | GetCanvas
  | NewImageDimensions
  | ExporterValidateSettings
  | ExporterExport

text \<open>
  \<^verbatim>\<open>ImageDimensions\<close> (lib/image-dimensions) is not among the sources: the
  object is taken as its method \<^verbatim>\<open>calculateFinalDimensions\<close>, which may throw.
\<close>

type_synonym image_dimensions = "vector2 \<Rightarrow> error + vector2"

text \<open>
  The collaborators of the pipeline whose code is not among the sources, as
  parameters: the two capability probes, the two renderer constructors, the methods
  of the renderer contract (dispatching on the renderer state), the constructor of
  \<^verbatim>\<open>ImageDimensions\<close>, and the two functions of \<^verbatim>\<open>ImageExporter\<close>.
\<close>

record 'r platform =
  WebGLRenderer_isSupported :: bool
  CanvasRenderer_isSupported :: bool
  new_WebGLRenderer :: "vector2 \<Rightarrow> 'r"
  new_CanvasRenderer :: "vector2 \<Rightarrow> 'r"
  renderer_drawImage :: "image \<Rightarrow> 'r \<Rightarrow> 'r"
  renderer_renderFinal :: "'r \<Rightarrow> outcome \<times> 'r"
  renderer_getSize :: "'r \<Rightarrow> vector2"
  renderer_resizeTo :: "vector2 \<Rightarrow> 'r \<Rightarrow> outcome \<times> 'r"
  new_ImageDimensions :: "string option \<Rightarrow> error + image_dimensions"
  ImageExporter_validateSettings ::
    "string option \<Rightarrow> string option \<Rightarrow> error + (string \<times> string)"
  ImageExporter_export :: "'r \<Rightarrow> string \<Rightarrow> string \<Rightarrow> outcome"

section \<open>RenderImage\<close>

record 'r render_image =
  ri_preferredRenderer :: "string option"
  ri_webglEnabled :: bool
  ri_renderer :: 'r
  ri_image :: image
  ri_stack :: "'r operation list"
  ri_dimensions :: image_dimensions
  ri_initialDimensions :: vector2

text \<open>
  \<^verbatim>\<open>_initRenderer\<close>. The result is the thrown error, or the backend chosen with
  the renderer after \<^verbatim>\<open>drawImage\<close>.
  \<^verbatim>\<open>
  if (WebGLRenderer.isSupported() && this._options.preferredRenderer !== "canvas") {
    this._renderer = new WebGLRenderer(this._initialDimensions);
    this._webglEnabled = true;
  } else if (CanvasRenderer.isSupported()) {
    this._renderer = new CanvasRenderer(this._initialDimensions);
    this._webglEnabled = false;
  }
  if (this._renderer === null) {
    throw new Error("Neither Canvas nor WebGL renderer are supported.");
  }
  this._renderer.drawImage(this._image);
  \<close>
\<close>

definition initRenderer ::
  "'r platform \<Rightarrow> string option \<Rightarrow> vector2 \<Rightarrow> image \<Rightarrow> (error + backend \<times> 'r) \<times> event list" where
  "initRenderer pf preferredRenderer initialDimensions img =
     (if WebGLRenderer_isSupported pf \<and> preferredRenderer \<noteq> Some ''canvas'' then
        (Inr (WebGL, renderer_drawImage pf img (new_WebGLRenderer pf initialDimensions)),
         [IsSupported WebGL, NewRenderer WebGL initialDimensions, DrawImage])
      else if CanvasRenderer_isSupported pf then
        (Inr (Canvas, renderer_drawImage pf img (new_CanvasRenderer pf initialDimensions)),
         [IsSupported WebGL, IsSupported Canvas, NewRenderer Canvas initialDimensions, DrawImage])
      else
        (Inl (Error ''Neither Canvas nor WebGL renderer are supported.''),
         [IsSupported WebGL, IsSupported Canvas]))"

text \<open>The constructor of \<^verbatim>\<open>RenderImage\<close>.\<close>

definition RenderImage_new ::
  "'r platform \<Rightarrow> image \<Rightarrow> 'r operation list \<Rightarrow> string option \<Rightarrow> string option
     \<Rightarrow> (error + 'r render_image) \<times> event list" where
  "RenderImage_new pf img operationsStack dimensions preferredRenderer =
     (case new_ImageDimensions pf dimensions of
        Inl e \<Rightarrow> (Inl e, [NewImageDimensions])
      | Inr dims \<Rightarrow>
          (case initRenderer pf preferredRenderer
                  (Vector2 (real (unat (width img))) (real (unat (height img)))) img of
             (Inl e, evs) \<Rightarrow> (Inl e, NewImageDimensions # evs)
           | (Inr (b, r), evs) \<Rightarrow>
               (Inr \<lparr>ri_preferredRenderer = preferredRenderer,
                     ri_webglEnabled = (b = WebGL),
                     ri_renderer = r,
                     ri_image = img,
                     ri_stack = operationsStack,
                     ri_dimensions = dims,
                     ri_initialDimensions =
                       Vector2 (real (unat (width img))) (real (unat (height img)))\<rparr>,
                NewImageDimensions # evs)))"

subsection \<open>The promise combinators of the render pass\<close>

text \<open>
  \<^verbatim>\<open>bluebird.map(this._stack, op => op.validateSettings())\<close>: the promise is
  fulfilled when every validation is, and rejected as soon as one is. Which rejection
  is reported when several operations fail depends on when they settle; the model
  reports the first in stack order.
\<close>

fun validate_all :: "'r operation list \<Rightarrow> outcome" where
  "validate_all [] = Fulfilled"
| "validate_all (oper # rest) =
     (case validateSettings oper of
        Rejected e \<Rightarrow> Rejected e
      | Fulfilled \<Rightarrow> validate_all rest)"

text \<open>
  \<^verbatim>\<open>bluebird.map(self._stack, op => op.render(self._renderer), { concurrency: 1 })\<close>.
  With the limit 1 the library calls the mapper for one element, and calls it for
  another only once the promise the first call returned has settled; a rejection
  rejects the whole map and no further element is handed to the mapper. The elements
  are paired with their index in the stack, as the library hands them to the mapper;
  \<open>render_each\<close> takes them in the order the library does.
\<close>

fun render_each :: "'r \<Rightarrow> (nat \<times> 'r operation) list \<Rightarrow> outcome \<times> 'r \<times> event list" where
  "render_each r [] = (Fulfilled, r, [])"
| "render_each r ((i, oper) # rest) =
     (case op_render oper r of
        (Rejected e, r') \<Rightarrow> (Rejected e, r', [RenderInvoked i, RenderSettled i (Rejected e)])
      | (Fulfilled, r') \<Rightarrow>
          (case render_each r' rest of
             (out, r'', evs) \<Rightarrow>
               (out, r'', RenderInvoked i # RenderSettled i Fulfilled # evs)))"

text \<open>
  The order in which the library hands the elements to the mapper is the library's
  own (bluebird is a dependency, not part of the repository), so the render pass
  takes it as a parameter: a function from the indexed stack to the sequence of
  mapper calls.
\<close>

type_synonym 'r map_order = "(nat \<times> 'r operation) list \<Rightarrow> (nat \<times> 'r operation) list"

text \<open>
  The order bluebird's concurrency-limited map follows; the library promises no
  order for the mapper calls of \<^verbatim>\<open>map\<close>. It walks the array from the front
  and calls the mapper while no returned promise is pending (a plain value or a
  settled promise of the library's own does not count towards the limit). From the first call that
  returns a pending promise on, the limit is reached: the indices that remain are
  pushed onto a queue, and each time the pending promise is fulfilled the library
  takes the next index from the end of that queue (\<^verbatim>\<open>queue.pop()\<close>).
\<close>

definition bluebird_map_order :: "'r map_order" where
  "bluebird_map_order xs =
     (case dropWhile (\<lambda>p. \<not> render_pending (snd p)) xs of
        [] \<Rightarrow> xs
      | p # queued \<Rightarrow> takeWhile (\<lambda>p. \<not> render_pending (snd p)) xs @ p # rev queued)"

text \<open>The stack in insertion order: what the spec asks of the rendering phase.\<close>

definition insertion_order :: "'r map_order" where
  "insertion_order xs = xs"

subsection \<open>render\<close>

text \<open>
  The last \<^verbatim>\<open>then\<close> callback of \<^verbatim>\<open>render\<close>:
  \<^verbatim>\<open>
  var initialSize = self._renderer.getSize();
  var finalDimensions = self._dimensions.calculateFinalDimensions(initialSize);
  if (finalDimensions.equals(initialSize)) {
    // No need to resize
    return;
  }
  return self._renderer.resizeTo(finalDimensions);
  \<close>
\<close>

definition resize_phase ::
  "'r platform \<Rightarrow> image_dimensions \<Rightarrow> 'r \<Rightarrow> outcome \<times> 'r \<times> event list" where
  "resize_phase pf dims r =
     (let initialSize = renderer_getSize pf r in
      case dims initialSize of
        Inl e \<Rightarrow> (Rejected e, r, [GetSize])
      | Inr finalDimensions \<Rightarrow>
          if equals finalDimensions initialSize then (Fulfilled, r, [GetSize])
          else (case renderer_resizeTo pf finalDimensions r of
                  (out, r') \<Rightarrow> (out, r', [GetSize, ResizeTo finalDimensions])))"

text \<open>
  The first \<^verbatim>\<open>then\<close> callback: the operations' \<^verbatim>\<open>render\<close> calls, then
  \<^verbatim>\<open>renderFinal\<close>.
\<close>

definition render_phase ::
  "'r map_order \<Rightarrow> 'r platform \<Rightarrow> 'r operation list \<Rightarrow> 'r \<Rightarrow> outcome \<times> 'r \<times> event list" where
  "render_phase order pf stack r =
     (case render_each r (order (enumerate 0 stack)) of
        (Rejected e, r1, evs) \<Rightarrow> (Rejected e, r1, evs)
      | (Fulfilled, r1, evs) \<Rightarrow>
          (case renderer_renderFinal pf r1 of
             (out, r2) \<Rightarrow> (out, r2, evs @ [RenderFinal])))"

text \<open>
  \<^verbatim>\<open>RenderImage.render\<close>: the validations, then the first callback, then the
  second; a rejected promise skips the callbacks chained after it. The result is the
  settled promise, the object after the pass and the calls made.
  \<^verbatim>\<open>
  return bluebird
    .map(this._stack, function (operation) {
      return operation.validateSettings();
    })
    .then(function () {
      return bluebird.map(self._stack, function (operation) {
        return operation.render(self._renderer);
      }, { concurrency: 1 }).then(function () {
        return self._renderer.renderFinal();
      });
    })
    .then(function () { ... });
  \<close>
\<close>

definition RenderImage_render ::
  "'r map_order \<Rightarrow> 'r platform \<Rightarrow> 'r render_image \<Rightarrow> outcome \<times> 'r render_image \<times> event list" where
  "RenderImage_render order pf ri =
     (case validate_all (ri_stack ri) of
        Rejected e \<Rightarrow> (Rejected e, ri, [])
      | Fulfilled \<Rightarrow>
          (case render_phase order pf (ri_stack ri) (ri_renderer ri) of
             (Rejected e, r2, evs) \<Rightarrow> (Rejected e, ri\<lparr>ri_renderer := r2\<rparr>, evs)
           | (Fulfilled, r2, evs) \<Rightarrow>
               (case resize_phase pf (ri_dimensions ri) r2 of
                  (out, r3, evs') \<Rightarrow> (out, ri\<lparr>ri_renderer := r3\<rparr>, evs @ evs'))))"

subsection \<open>The stack as the caller's array\<close>

text \<open>
  \<^verbatim>\<open>this._stack = operationsStack\<close>: the object keeps a reference to the array
  the caller owns, and hands that array to \<^verbatim>\<open>bluebird.map\<close>, which reads its
  elements when it is called and keeps its results in an array of its own. The
  operations are objects and may hold references of their own. To follow writes to
  the caller's array, the state the operations and the renderer methods act on can be
  taken to hold that array beside the renderer: \<open>w_stack\<close> is the content of the
  array, the references of its elements in order, and a table gives the operation
  object behind a reference. \<open>RenderImage_render\<close> is then read with a world for
  its renderer state and with the operations of the array for \<open>ri_stack\<close>.
\<close>

record 'r world =
  w_renderer :: 'r
  w_stack :: "nat list"

section \<open>ImglyKit.render\<close>

record 'r imgly_kit =
  options_image :: "image option"
  options_renderer :: "string option"
  operationsStack :: "'r operation list"

text \<open>
  \<^verbatim>\<open>ImglyKit.render(renderType, imageFormat, dimensions)\<close>. \<open>Inl\<close> is an
  exception thrown by the call itself, \<open>Inr\<close> the promise it returns, settled.
  \<^verbatim>\<open>
  if (typeof this._options.image === "undefined")
    throw new Error("`options.image` is undefined.");
  var settings = ImageExporter.validateSettings(renderType, imageFormat);
  renderType = settings.renderType;
  imageFormat = settings.imageFormat;
  var renderImage = new RenderImage(this._options.image, this.operationsStack,
                                    dimensions, this._options.renderer);
  return renderImage.render()
    .then(function () {
      var canvas = renderImage.getRenderer().getCanvas();
      return ImageExporter.export(canvas, renderType, imageFormat);
    });
  \<close>
\<close>

definition ImglyKit_render ::
  "'r map_order \<Rightarrow> 'r platform \<Rightarrow> 'r imgly_kit \<Rightarrow> string option \<Rightarrow> string option \<Rightarrow> string option
     \<Rightarrow> (error + outcome) \<times> event list" where
  "ImglyKit_render order pf kit renderType imageFormat dimensions =
     (case options_image kit of
        None \<Rightarrow> (Inl (Error ''`options.image` is undefined.''), [])
      | Some img \<Rightarrow>
          (case ImageExporter_validateSettings pf renderType imageFormat of
             Inl e \<Rightarrow> (Inl e, [ExporterValidateSettings])
           | Inr (rt, fmt) \<Rightarrow>
               (case RenderImage_new pf img (operationsStack kit) dimensions (options_renderer kit) of
                  (Inl e, evs) \<Rightarrow> (Inl e, ExporterValidateSettings # evs)
                | (Inr ri, evs) \<Rightarrow>
                    (case RenderImage_render order pf ri of
                       (Rejected e, ri', evs') \<Rightarrow>
                         (Inr (Rejected e), ExporterValidateSettings # evs @ evs')
                     | (Fulfilled, ri', evs') \<Rightarrow>
                         (Inr (ImageExporter_export pf (ri_renderer ri') rt fmt),
                          ExporterValidateSettings # evs @ evs' @ [GetCanvas, ExporterExport])))))"

section \<open>CanvasRenderer\<close>

subsection \<open>Canvas elements and the 2D context\<close>

text \<open>
  Canvas elements are objects of the page: a store of surfaces, a reference being an
  index into it. A 2D context is bound to one canvas and is written as the reference
  of that canvas. The primitives below are the platform's (the canvas element and
  its 2D context), with the coordinates and sizes handed to \<^verbatim>\<open>drawImage\<close> as
  pixel counts; exceptions the platform itself may raise are not part of the model.
\<close>

type_synonym store = "surface list"

text \<open>
  A number assigned to an attribute of type unsigned long is converted first: it is
  truncated towards zero and taken modulo \<open>2^32\<close>.
\<close>

definition unsigned_long :: "real \<Rightarrow> nat" where
  "unsigned_long q = nat ((if 0 \<le> q then \<lfloor>q\<rfloor> else \<lceil>q\<rceil>) mod 4294967296)"

text \<open>
  The attributes \<^verbatim>\<open>width\<close> and \<^verbatim>\<open>height\<close> of a canvas keep the converted
  value when it is at most 2147483647, and take their default otherwise.
\<close>

definition canvas_dimension :: "31 word \<Rightarrow> real \<Rightarrow> 31 word" where
  "canvas_dimension dflt q =
     (if unsigned_long q \<le> 2147483647 then of_nat (unsigned_long q) else dflt)"

text \<open>
  Assigning \<^verbatim>\<open>canvas.width\<close> or \<^verbatim>\<open>canvas.height\<close> sets the size, 300 and
  150 being the defaults, and clears the bitmap to transparent black.
\<close>

definition set_canvas_width :: "nat \<Rightarrow> real \<Rightarrow> store \<Rightarrow> store" where
  "set_canvas_width c w st =
     st[c := (st ! c)\<lparr>width := canvas_dimension 300 w, bitmap := (\<lambda>i j. transparent)\<rparr>]"

definition set_canvas_height :: "nat \<Rightarrow> real \<Rightarrow> store \<Rightarrow> store" where
  "set_canvas_height c h st =
     st[c := (st ! c)\<lparr>height := canvas_dimension 150 h, bitmap := (\<lambda>i j. transparent)\<rparr>]"

definition getContext2d :: "nat \<Rightarrow> nat" where
  "getContext2d c = c"

text \<open>
  How the platform scales a source rectangle \<open>(sx, sy, sw, sh)\<close> of a surface to a
  destination of size \<open>(dw, dh)\<close> is the platform's choice of filter: a parameter,
  giving the pixel at offset \<open>(u, v)\<close> of the destination rectangle.
\<close>

type_synonym resampler =
  "surface \<Rightarrow> nat \<times> nat \<times> nat \<times> nat \<Rightarrow> nat \<times> nat \<Rightarrow> nat \<Rightarrow> nat \<Rightarrow> pixel"

text \<open>
  The pixel that \<^verbatim>\<open>drawImage\<close> puts at offset \<open>(u, v)\<close> of the destination
  rectangle: the source pixel itself when the rectangle is not scaled (transparent
  outside the source), the resampled one otherwise.
\<close>

definition source_pixel ::
  "resampler \<Rightarrow> surface \<Rightarrow> nat \<Rightarrow> nat \<Rightarrow> nat \<Rightarrow> nat \<Rightarrow> nat \<Rightarrow> nat \<Rightarrow> nat \<Rightarrow> nat \<Rightarrow> pixel" where
  "source_pixel rs src sx sy sw sh dw dh u v =
     (if sw = dw \<and> sh = dh then
        (if sx + u < unat (width src) \<and> sy + v < unat (height src)
         then bitmap src (sx + u) (sy + v)
         else transparent)
      else rs src (sx, sy, sw, sh) (dw, dh) u v)"

text \<open>
  \<^verbatim>\<open>context.drawImage(image, sx, sy, sw, sh, dx, dy, dw, dh)\<close>: the source
  rectangle is composited over the destination rectangle of the context's canvas,
  clipped to that canvas.
\<close>

definition context_drawImage ::
  "resampler \<Rightarrow> nat \<Rightarrow> surface \<Rightarrow> nat \<Rightarrow> nat \<Rightarrow> nat \<Rightarrow> nat \<Rightarrow> nat \<Rightarrow> nat \<Rightarrow> nat \<Rightarrow> nat
     \<Rightarrow> store \<Rightarrow> store" where
  "context_drawImage rs ctx src sx sy sw sh dx dy dw dh st =
     st[ctx := (st ! ctx)\<lparr>bitmap :=
         (\<lambda>i j. if dx \<le> i \<and> i < dx + dw \<and> dy \<le> j \<and> j < dy + dh
                     \<and> i < unat (width (st ! ctx)) \<and> j < unat (height (st ! ctx))
                 then over (source_pixel rs src sx sy sw sh dw dh (i - dx) (j - dy))
                           (bitmap (st ! ctx) i j)
                 else bitmap (st ! ctx) i j)\<rparr>]"

text \<open>
  \<^verbatim>\<open>context.drawImage(image, dx, dy)\<close>: the whole source at its own size.
\<close>

definition context_drawImage3 :: "resampler \<Rightarrow> nat \<Rightarrow> surface \<Rightarrow> nat \<Rightarrow> nat \<Rightarrow> store \<Rightarrow> store" where
  "context_drawImage3 rs ctx src dx dy st =
     context_drawImage rs ctx src 0 0 (unat (width src)) (unat (height src))
       dx dy (unat (width src)) (unat (height src)) st"

subsection \<open>The renderer\<close>

text \<open>
  The fields \<^verbatim>\<open>_canvas\<close> and \<^verbatim>\<open>_context\<close> of the renderer object.
\<close>

record canvas_renderer =
  this_canvas :: nat
  this_context :: nat

text \<open>
  Modelled from the spec: \<^verbatim>\<open>Renderer.createCanvas\<close> is defined in
  renderers/renderer, which is not among the sources. The spec (4.2) says
  \<^verbatim>\<open>resizeTo\<close> "allocates a new surface" and \<^verbatim>\<open>cloneCanvas\<close> is a "new
  allocation": a fresh canvas element, of the platform's default size 300 by 150.
\<close>

definition createCanvas :: "store \<Rightarrow> nat \<times> store" where
  "createCanvas st =
     (length st, st @ [\<lparr>width = 300, height = 150, bitmap = (\<lambda>i j. transparent)\<rparr>])"

text \<open>
  Modelled from the spec: \<^verbatim>\<open>Renderer.setCanvas\<close> is defined in
  renderers/renderer, which is not among the sources. The spec (4.2) says
  \<^verbatim>\<open>resizeTo\<close> "replaces the backend's active surface with the new one": the
  canvas becomes the active one, with its context (the source's comment reads "Set
  the new canvas and context").
\<close>

definition setCanvas :: "nat \<Rightarrow> canvas_renderer \<Rightarrow> canvas_renderer" where
  "setCanvas c cr = cr\<lparr>this_canvas := c, this_context := getContext2d c\<rparr>"

text \<open>
  \<^verbatim>\<open>
  drawImage (image) {
    this._context.drawImage(image, 0, 0, image.width, image.height,
                            0, 0, this._canvas.width, this._canvas.height);
  }
  \<close>
\<close>

definition drawImage :: "resampler \<Rightarrow> image \<Rightarrow> store \<times> canvas_renderer \<Rightarrow> store \<times> canvas_renderer" where
  "drawImage rs img w =
     (case w of (st, cr) \<Rightarrow>
        (context_drawImage rs (this_context cr) img 0 0 (unat (width img)) (unat (height img))
           0 0 (unat (width (st ! this_canvas cr))) (unat (height (st ! this_canvas cr))) st,
         cr))"

text \<open>
  \<^verbatim>\<open>
  resizeTo (dimensions) {
    var newCanvas = this.createCanvas();
    newCanvas.width = dimensions.x;
    newCanvas.height = dimensions.y;
    var newContext = newCanvas.getContext("2d");
    newContext.drawImage(this._canvas, 0, 0, this._canvas.width, this._canvas.height,
                         0, 0, newCanvas.width, newCanvas.height);
    this.setCanvas(newCanvas);
  }
  \<close>
\<close>

definition resizeTo ::
  "resampler \<Rightarrow> vector2 \<Rightarrow> store \<times> canvas_renderer \<Rightarrow> store \<times> canvas_renderer" where
  "resizeTo rs dimensions w =
     (case w of (st, cr) \<Rightarrow>
        (case createCanvas st of (newCanvas, st1) \<Rightarrow>
           (let st2 = set_canvas_width newCanvas (vec_x dimensions) st1;
                st3 = set_canvas_height newCanvas (vec_y dimensions) st2;
                newContext = getContext2d newCanvas;
                st4 = context_drawImage rs newContext (st3 ! this_canvas cr) 0 0
                        (unat (width (st3 ! this_canvas cr)))
                        (unat (height (st3 ! this_canvas cr)))
                        0 0 (unat (width (st3 ! newCanvas))) (unat (height (st3 ! newCanvas)))
                        st3
            in (st4, setCanvas newCanvas cr))))"

text \<open>
  \<^verbatim>\<open>
  cloneCanvas () {
    var canvas = this.createCanvas();
    var context = canvas.getContext("2d");
    canvas.width = this._canvas.width;
    canvas.height = this._canvas.height;
    context.drawImage(this._canvas, 0, 0);
    return canvas;
  }
  \<close>
  The result is the returned canvas, with the store and the renderer object after
  the call.
\<close>

definition cloneCanvas ::
  "resampler \<Rightarrow> store \<times> canvas_renderer \<Rightarrow> nat \<times> store \<times> canvas_renderer" where
  "cloneCanvas rs w =
     (case w of (st, cr) \<Rightarrow>
        (case createCanvas st of (canvas, st1) \<Rightarrow>
           (let context = getContext2d canvas;
                st2 = set_canvas_width canvas (real (unat (width (st1 ! this_canvas cr)))) st1;
                st3 = set_canvas_height canvas (real (unat (height (st2 ! this_canvas cr)))) st2;
                st4 = context_drawImage3 rs context (st3 ! this_canvas cr) 0 0 st3
            in (canvas, st4, cr))))"

section \<open>Reading traces\<close>

fun is_render_event :: "event \<Rightarrow> bool" where
  "is_render_event (RenderInvoked i) = True"
| "is_render_event (RenderSettled i out) = True"
| "is_render_event e = False"

fun is_resizeTo :: "event \<Rightarrow> bool" where
  "is_resizeTo (ResizeTo d) = True"
| "is_resizeTo e = False"

text \<open>
  The calls of a run in which every operation handed to the mapper is rendered with
  success: each is invoked and settles before the next is invoked.
\<close>

definition render_events :: "(nat \<times> 'r operation) list \<Rightarrow> event list" where
  "render_events xs =
     concat (map (\<lambda>p. [RenderInvoked (fst p), RenderSettled (fst p) Fulfilled]) xs)"

text \<open>
  A trace of \<^verbatim>\<open>render\<close> calls in which no two calls are in flight together:
  every call settles right after it was invoked.
\<close>

fun sequential :: "event list \<Rightarrow> bool" where
  "sequential [] = True"
| "sequential (RenderInvoked i # RenderSettled j out # rest) = (i = j \<and> sequential rest)"
| "sequential evs = False"

text \<open>The stack indices of the operations invoked, in the order of the calls.\<close>

fun invoked :: "event list \<Rightarrow> nat list" where
  "invoked [] = []"
| "invoked (RenderInvoked i # evs) = i # invoked evs"
| "invoked (e # evs) = invoked evs"

section \<open>Example inputs\<close>

text \<open>
  A backend whose state is its size and the list of the effects applied to it, and
  operations that append their name to that list.
\<close>

definition example_platform :: "bool \<Rightarrow> bool \<Rightarrow> (vector2 \<times> string list) platform" where
  "example_platform webgl canvas =
     \<lparr>WebGLRenderer_isSupported = webgl,
      CanvasRenderer_isSupported = canvas,
      new_WebGLRenderer = (\<lambda>d. (d, [''webgl''])),
      new_CanvasRenderer = (\<lambda>d. (d, [''canvas''])),
      renderer_drawImage = (\<lambda>img r. (fst r, snd r @ [''image''])),
      renderer_renderFinal = (\<lambda>r. (Fulfilled, (fst r, snd r @ [''final'']))),
      renderer_getSize = fst,
      renderer_resizeTo = (\<lambda>d r. (Fulfilled, (d, snd r))),
      new_ImageDimensions = (\<lambda>s. Inr Inr),
      ImageExporter_validateSettings = (\<lambda>rt fmt. Inr (''data-url'', ''png'')),
      ImageExporter_export = (\<lambda>r rt fmt. Fulfilled)\<rparr>"

definition example_operation ::
  "string \<Rightarrow> bool \<Rightarrow> outcome \<Rightarrow> outcome \<Rightarrow> (vector2 \<times> string list) operation" where
  "example_operation name pending valid out =
     \<lparr>op_identifier = name, validateSettings = valid,
      op_render = (\<lambda>r. (out, (fst r, snd r @ [name]))),
      render_pending = pending\<rparr>"

definition example_image :: image where
  "example_image = \<lparr>width = 4, height = 2, bitmap = (\<lambda>i j. Pixel i j 0 255)\<rparr>"

definition example_render_image ::
  "(vector2 \<times> string list) operation list \<Rightarrow> image_dimensions
     \<Rightarrow> (vector2 \<times> string list) render_image" where
  "example_render_image stack dims =
     \<lparr>ri_preferredRenderer = None, ri_webglEnabled = True,
      ri_renderer = (Vector2 4 2, [''image'']), ri_image = example_image,
      ri_stack = stack, ri_dimensions = dims, ri_initialDimensions = Vector2 4 2\<rparr>"

text \<open>A dimension rule that halves both sides, and one resampling filter.\<close>

definition halve :: image_dimensions where
  "halve v = Inr (Vector2 (vec_x v / 2) (vec_y v / 2))"

definition nearest_neighbour :: resampler where
  "nearest_neighbour src rect dst u v =
     (case rect of (sx, sy, sw, sh) \<Rightarrow>
        (case dst of (dw, dh) \<Rightarrow> bitmap src (sx + u * sw div dw) (sy + v * sh div dh)))"

definition example_store :: store where
  "example_store = [\<lparr>width = 2, height = 1, bitmap = (\<lambda>i j. Pixel i j 0 255)\<rparr>]"

definition example_canvas_renderer :: canvas_renderer where
  "example_canvas_renderer = \<lparr>this_canvas = 0, this_context = 0\<rparr>"

text \<open>
  A backend and three operation objects over a world that holds the caller's array:
  the first swaps the sides of the renderer, the second rejects, the third removes
  the last element of the caller's array.
\<close>

definition example_world_platform :: "vector2 world platform" where
  "example_world_platform =
     \<lparr>WebGLRenderer_isSupported = True,
      CanvasRenderer_isSupported = True,
      new_WebGLRenderer = (\<lambda>d. \<lparr>w_renderer = d, w_stack = []\<rparr>),
      new_CanvasRenderer = (\<lambda>d. \<lparr>w_renderer = d, w_stack = []\<rparr>),
      renderer_drawImage = (\<lambda>img w. w),
      renderer_renderFinal = (\<lambda>w. (Fulfilled, w)),
      renderer_getSize = w_renderer,
      renderer_resizeTo = (\<lambda>d w. (Fulfilled, w\<lparr>w_renderer := d\<rparr>)),
      new_ImageDimensions = (\<lambda>s. Inr Inr),
      ImageExporter_validateSettings = (\<lambda>rt fmt. Inr (''data-url'', ''png'')),
      ImageExporter_export = (\<lambda>r rt fmt. Fulfilled)\<rparr>"

definition example_table :: "nat \<Rightarrow> vector2 world operation" where
  "example_table ref =
     (if ref = 0 then
        \<lparr>op_identifier = ''rotate'', validateSettings = Fulfilled,
         op_render = (\<lambda>w. (Fulfilled,
                            w\<lparr>w_renderer := Vector2 (vec_y (w_renderer w)) (vec_x (w_renderer w))\<rparr>)),
         render_pending = False\<rparr>
      else if ref = 1 then
        \<lparr>op_identifier = ''crop'', validateSettings = Fulfilled,
         op_render = (\<lambda>w. (Rejected (Error ''bad crop''), w)),
         render_pending = False\<rparr>
      else
        \<lparr>op_identifier = ''unstack'', validateSettings = Fulfilled,
         op_render = (\<lambda>w. (Fulfilled, w\<lparr>w_stack := butlast (w_stack w)\<rparr>)),
         render_pending = False\<rparr>)"

definition example_world_render_image ::
  "nat list \<Rightarrow> image_dimensions \<Rightarrow> vector2 world render_image" where
  "example_world_render_image refs dims =
     \<lparr>ri_preferredRenderer = None, ri_webglEnabled = True,
      ri_renderer = \<lparr>w_renderer = Vector2 4 2, w_stack = refs\<rparr>, ri_image = example_image,
      ri_stack = map example_table refs, ri_dimensions = dims,
      ri_initialDimensions = Vector2 4 2\<rparr>"

section \<open>The render pass\<close>

lemmas example_defs = example_platform_def example_operation_def example_image_def
  example_render_image_def halve_def

lemmas render_defs = RenderImage_render_def render_phase_def resize_phase_def equals_def

subsection \<open>The calls of the rendering phase\<close>

lemma render_each_Fulfilled:
  "render_each r xs = (Fulfilled, r', evs) \<Longrightarrow> evs = render_events xs"
proof (induction xs arbitrary: r r' evs)
  case Nil
  then show ?case by (simp add: render_events_def)
next
  case (Cons p xs)
  obtain i oper where p: "p = (i, oper)" by (cases p)
  from Cons.prems p obtain r1 where r1: "op_render oper r = (Fulfilled, r1)"
    by (auto split: prod.splits outcome.splits)
  with Cons.prems p obtain evs1 where e1: "render_each r1 xs = (Fulfilled, r', evs1)"
    and evs: "evs = RenderInvoked i # RenderSettled i Fulfilled # evs1"
    by (auto split: prod.splits)
  from Cons.IH[OF e1] evs p show ?case by (simp add: render_events_def)
qed

lemma render_events_only: "list_all is_render_event (render_events xs)"
  by (induction xs) (simp_all add: render_events_def)

lemma count_render_events: "list_all is_render_event xs \<Longrightarrow> count_list xs RenderFinal = 0"
  by (induction xs) auto

lemma filter_resizeTo_render_events:
  "list_all is_render_event xs \<Longrightarrow> filter is_resizeTo xs = []"
proof (induction xs)
  case Nil
  then show ?case by simp
next
  case (Cons a xs)
  then show ?case by (cases a) simp_all
qed

text \<open>
  Whatever the order of the mapper calls, the rendering phase never has two
  \<^verbatim>\<open>render\<close> calls in flight, and the operations it invokes are an initial
  segment of that order: after a rejection no further operation is invoked.
\<close>

lemma render_each_sequential:
  "render_each r xs = (out, r', evs) \<Longrightarrow> sequential evs"
proof (induction xs arbitrary: r r' evs out)
  case Nil
  then show ?case by simp
next
  case (Cons p xs)
  obtain i oper where p: "p = (i, oper)" by (cases p)
  obtain o1 r1 where o1: "op_render oper r = (o1, r1)" by (cases "op_render oper r")
  show ?case
  proof (cases o1)
    case Fulfilled
    obtain o2 r2 evs2 where e2: "render_each r1 xs = (o2, r2, evs2)"
      by (cases "render_each r1 xs")
    with Cons.prems p o1 Fulfilled have "evs = RenderInvoked i # RenderSettled i Fulfilled # evs2"
      by simp
    with Cons.IH[OF e2] show ?thesis by simp
  next
    case (Rejected e)
    with Cons.prems p o1 show ?thesis by auto
  qed
qed

lemma render_each_invoked:
  "render_each r xs = (out, r', evs) \<Longrightarrow> \<exists>k \<le> length xs. invoked evs = take k (map fst xs)"
proof (induction xs arbitrary: r r' evs out)
  case Nil
  then show ?case by simp
next
  case (Cons p xs)
  obtain i oper where p: "p = (i, oper)" by (cases p)
  obtain o1 r1 where o1: "op_render oper r = (o1, r1)" by (cases "op_render oper r")
  show ?case
  proof (cases o1)
    case Fulfilled
    obtain o2 r2 evs2 where e2: "render_each r1 xs = (o2, r2, evs2)"
      by (cases "render_each r1 xs")
    with Cons.prems p o1 Fulfilled
    have evs: "evs = RenderInvoked i # RenderSettled i Fulfilled # evs2" by simp
    from Cons.IH[OF e2] obtain k where "k \<le> length xs" "invoked evs2 = take k (map fst xs)"
      by blast
    with evs p have "Suc k \<le> length (p # xs) \<and> invoked evs = take (Suc k) (map fst (p # xs))"
      by simp
    then show ?thesis by blast
  next
    case (Rejected e)
    with Cons.prems p o1 have "invoked evs = take 1 (map fst (p # xs))" by auto
    then show ?thesis by (intro exI[of _ 1]) simp
  qed
qed

text \<open>
  Were the operations handed to the mapper in insertion order, they would be invoked
  in stack order, up to the first that rejects.
\<close>

lemma render_each_insertion_order:
  assumes "render_each r (insertion_order (enumerate 0 stack)) = (out, r', evs)"
  shows "\<exists>k \<le> length stack. invoked evs = [0..<k]"
proof -
  from render_each_invoked[OF assms] obtain k where
    k: "k \<le> length stack" and inv: "invoked evs = take k (map fst (enumerate 0 stack))"
    by (auto simp: insertion_order_def)
  from k have "take k [0..<length stack] = [0..<k]" by (simp add: take_upt)
  with inv have "invoked evs = [0..<k]" by (simp add: map_fst_enumerate)
  with k show ?thesis by blast
qed

lemma render_phase_Fulfilled:
  assumes "render_phase order pf stack r = (Fulfilled, r2, evs)"
  shows "evs = render_events (order (enumerate 0 stack)) @ [RenderFinal]"
proof -
  obtain o1 r1 evs1 where e1: "render_each r (order (enumerate 0 stack)) = (o1, r1, evs1)"
    by (cases "render_each r (order (enumerate 0 stack))")
  show ?thesis
  proof (cases o1)
    case Fulfilled
    with e1 have "evs1 = render_events (order (enumerate 0 stack))"
      by (simp add: render_each_Fulfilled)
    moreover from assms e1 Fulfilled have "evs = evs1 @ [RenderFinal]"
      by (simp add: render_phase_def split: prod.splits)
    ultimately show ?thesis by simp
  next
    case (Rejected e)
    with assms e1 show ?thesis by (simp add: render_phase_def)
  qed
qed

lemma render_phase_no_resizeTo:
  assumes "render_phase order pf stack r = (Fulfilled, r2, evs)"
  shows "filter is_resizeTo evs = []"
proof -
  have "filter is_resizeTo (render_events (order (enumerate 0 stack))) = []"
    by (rule filter_resizeTo_render_events) (rule render_events_only)
  with render_phase_Fulfilled[OF assms] show ?thesis by simp
qed

lemma resize_phase_events:
  assumes "resize_phase pf dims r = (out, r', evs)"
  shows "evs = [GetSize] \<or> (\<exists>d. evs = [GetSize, ResizeTo d])"
  using assms by (auto simp: resize_phase_def Let_def split: sum.splits if_splits prod.splits)

lemma RenderImage_render_Fulfilled:
  assumes "RenderImage_render order pf ri = (Fulfilled, ri', evs)"
  shows "\<exists>r2 r3 evs1 evs2.
           render_phase order pf (ri_stack ri) (ri_renderer ri) = (Fulfilled, r2, evs1)
         \<and> resize_phase pf (ri_dimensions ri) r2 = (Fulfilled, r3, evs2) \<and> evs = evs1 @ evs2"
  using assms by (auto simp: RenderImage_render_def split: outcome.splits prod.splits)

subsection \<open>The order of the rendering phase\<close>

text \<open>
  The library's order holds every element of the stack once, and it is the insertion
  order when no operation's \<^verbatim>\<open>render\<close> returns a pending promise.
\<close>

lemma bluebird_map_order_same_elements:
  "set (bluebird_map_order xs) = set xs \<and> length (bluebird_map_order xs) = length xs"
proof (cases "dropWhile (\<lambda>p. \<not> render_pending (snd p)) xs")
  case Nil
  show ?thesis unfolding bluebird_map_order_def Nil by simp
next
  case (Cons p queued)
  let ?sync = "takeWhile (\<lambda>p. \<not> render_pending (snd p)) xs"
  have split: "xs = ?sync @ p # queued"
    using takeWhile_dropWhile_id[of "\<lambda>p. \<not> render_pending (snd p)" xs] Cons by simp
  have order: "bluebird_map_order xs = ?sync @ p # rev queued"
    unfolding bluebird_map_order_def Cons by simp
  have "set (?sync @ p # rev queued) = set (?sync @ p # queued)" by simp
  moreover have "length (?sync @ p # rev queued) = length (?sync @ p # queued)" by simp
  ultimately show ?thesis using split order by metis
qed

lemma bluebird_map_order_no_pending:
  assumes "\<forall>p \<in> set xs. \<not> render_pending (snd p)"
  shows "bluebird_map_order xs = insertion_order xs"
proof -
  from assms have d: "dropWhile (\<lambda>p. \<not> render_pending (snd p)) xs = []" by simp
  show ?thesis unfolding bluebird_map_order_def insertion_order_def d by simp
qed

text \<open>
  Claim C1 says the operations are rendered strictly in insertion order, one at a
  time. One at a time holds (\<open>render_each_sequential\<close>); the order is the one in
  which bluebird's map hands the elements to the mapper, and that is the insertion
  order only up to the first operation whose \<^verbatim>\<open>render\<close> returns a pending
  promise. On a stack of three operations of which the first waits for an asset, the
  operations are invoked in the order 0, 2, 1: the code asks for a concurrency of 1
  and does not get the order the claim describes.
\<close>

theorem render_order_after_pending_operation:
  "invoked (snd (snd (RenderImage_render bluebird_map_order (example_platform True True)
     (example_render_image [example_operation ''sticker'' True Fulfilled Fulfilled,
                            example_operation ''crop'' False Fulfilled Fulfilled,
                            example_operation ''rotate'' False Fulfilled Fulfilled] Inr))))
   = [0, 2, 1]"
  by (simp add: render_defs bluebird_map_order_def example_defs)

text \<open>
  Claim C3 says that when an operation in the middle of the stack fails, the
  operations after it are never invoked. The pass does reject and nothing is rolled
  back, but with the first operation pending the third is rendered before the second
  fails: the renderer carries the effect of ''rotate'' although ''crop'', which
  precedes it in the stack, rejected.
\<close>

theorem mid_stack_failure_after_pending_operation:
  "(case RenderImage_render bluebird_map_order (example_platform True True)
      (example_render_image
         [example_operation ''sticker'' True Fulfilled Fulfilled,
          example_operation ''crop'' False Fulfilled (Rejected (Error ''bad crop'')),
          example_operation ''rotate'' False Fulfilled Fulfilled] Inr) of
      (out, ri', evs) \<Rightarrow> (out, ri_renderer ri', evs))
   = (Rejected (Error ''bad crop''),
      (Vector2 4 2, [''image'', ''sticker'', ''rotate'', ''crop'']),
      [RenderInvoked 0, RenderSettled 0 Fulfilled, RenderInvoked 2, RenderSettled 2 Fulfilled,
       RenderInvoked 1, RenderSettled 1 (Rejected (Error ''bad crop''))])"
  by (simp add: render_defs bluebird_map_order_def example_defs)

subsection \<open>Validation comes first\<close>

lemma validate_all_Rejected:
  "\<exists>oper \<in> set stack. validateSettings oper \<noteq> Fulfilled \<Longrightarrow> \<exists>e. validate_all stack = Rejected e"
proof (induction stack)
  case Nil
  then show ?case by simp
next
  case (Cons a stack)
  then show ?case by (cases "validateSettings a") auto
qed

text \<open>
  Claim C2. If the validation of some operation of the stack fails, \<^verbatim>\<open>render\<close>
  rejects, whatever the order in which the library would hand the operations to the
  mapper: no call is made at all (the trace is empty, so no operation's
  \<^verbatim>\<open>render\<close> is invoked and no method of the renderer is called) and the
  object, with its renderer, is as it was before the call.
\<close>

theorem validation_failure_rejects_before_rendering:
  assumes "\<exists>oper \<in> set (ri_stack ri). validateSettings oper \<noteq> Fulfilled"
  shows "\<exists>e. RenderImage_render order pf ri = (Rejected e, ri, [])"
proof -
  from validate_all_Rejected[OF assms] obtain e where "validate_all (ri_stack ri) = Rejected e" ..
  then show ?thesis by (simp add: RenderImage_render_def)
qed

theorem validation_failure_rejects_before_rendering_witness:
  "\<exists>e. RenderImage_render insertion_order (example_platform True True)
     (example_render_image [example_operation ''crop'' False Fulfilled Fulfilled,
                            example_operation ''text'' False (Rejected (Error ''no font'')) Fulfilled] Inr)
   = (Rejected e,
      example_render_image [example_operation ''crop'' False Fulfilled Fulfilled,
                            example_operation ''text'' False (Rejected (Error ''no font'')) Fulfilled] Inr, [])"
  by (rule validation_failure_rejects_before_rendering) (simp add: example_defs)

subsection \<open>renderFinal\<close>

text \<open>
  Claim C5. In a render pass that succeeds, the calls are: the \<^verbatim>\<open>render\<close> calls
  of the operations, each settled, then \<^verbatim>\<open>renderFinal\<close>, then \<^verbatim>\<open>getSize\<close>,
  then at most the one \<^verbatim>\<open>resizeTo\<close>. So \<^verbatim>\<open>renderFinal\<close> is called exactly
  once, after every operation's \<^verbatim>\<open>render\<close> has completed and before the size is
  read for the resize decision. This holds for any order in which the library hands
  the operations to the mapper.
\<close>

theorem renderFinal_once_after_operations_before_getSize:
  assumes "RenderImage_render order pf ri = (Fulfilled, ri', evs)"
  shows "\<exists>ops_evs rest. evs = ops_evs @ RenderFinal # GetSize # rest
           \<and> ops_evs = render_events (order (enumerate 0 (ri_stack ri)))
           \<and> (rest = [] \<or> (\<exists>d. rest = [ResizeTo d]))
           \<and> count_list evs RenderFinal = 1"
proof -
  from RenderImage_render_Fulfilled[OF assms] obtain r2 r3 evs1 evs2 where
    rp: "render_phase order pf (ri_stack ri) (ri_renderer ri) = (Fulfilled, r2, evs1)"
    and rs: "resize_phase pf (ri_dimensions ri) r2 = (Fulfilled, r3, evs2)"
    and evs: "evs = evs1 @ evs2" by blast
  let ?ops = "render_events (order (enumerate 0 (ri_stack ri)))"
  from render_phase_Fulfilled[OF rp] have e1: "evs1 = ?ops @ [RenderFinal]" .
  from resize_phase_events[OF rs] obtain rest where e2: "evs2 = GetSize # rest"
    and rest: "rest = [] \<or> (\<exists>d. rest = [ResizeTo d])" by auto
  have c0: "count_list ?ops RenderFinal = 0"
    by (rule count_render_events) (rule render_events_only)
  from rest have c2: "count_list rest RenderFinal = 0" by auto
  from evs e1 e2 have shape: "evs = ?ops @ RenderFinal # GetSize # rest" by simp
  with c0 c2 have "count_list evs RenderFinal = 1" by simp
  with shape rest show ?thesis by blast
qed

theorem renderFinal_once_after_operations_before_getSize_witness:
  "RenderImage_render insertion_order (example_platform True True)
     (example_render_image [example_operation ''crop'' False Fulfilled Fulfilled,
                            example_operation ''text'' False Fulfilled Fulfilled] halve)
   = (Fulfilled,
      (example_render_image [example_operation ''crop'' False Fulfilled Fulfilled,
                             example_operation ''text'' False Fulfilled Fulfilled] halve)
        \<lparr>ri_renderer := (Vector2 2 1, [''image'', ''crop'', ''text'', ''final''])\<rparr>,
      [RenderInvoked 0, RenderSettled 0 Fulfilled, RenderInvoked 1, RenderSettled 1 Fulfilled,
       RenderFinal, GetSize, ResizeTo (Vector2 2 1)])
   \<and> (\<exists>ops_evs rest.
         [RenderInvoked 0, RenderSettled 0 Fulfilled, RenderInvoked 1, RenderSettled 1 Fulfilled,
          RenderFinal, GetSize, ResizeTo (Vector2 2 1)] = ops_evs @ RenderFinal # GetSize # rest
       \<and> ops_evs = render_events (insertion_order (enumerate 0
            [example_operation ''crop'' False Fulfilled Fulfilled,
             example_operation ''text'' False Fulfilled Fulfilled]))
       \<and> (rest = [] \<or> (\<exists>d. rest = [ResizeTo d]))
       \<and> count_list [RenderInvoked 0, RenderSettled 0 Fulfilled, RenderInvoked 1,
             RenderSettled 1 Fulfilled, RenderFinal, GetSize, ResizeTo (Vector2 2 1)] RenderFinal = 1)"
proof -
  have run: "RenderImage_render insertion_order (example_platform True True)
     (example_render_image [example_operation ''crop'' False Fulfilled Fulfilled,
                            example_operation ''text'' False Fulfilled Fulfilled] halve)
   = (Fulfilled,
      (example_render_image [example_operation ''crop'' False Fulfilled Fulfilled,
                             example_operation ''text'' False Fulfilled Fulfilled] halve)
        \<lparr>ri_renderer := (Vector2 2 1, [''image'', ''crop'', ''text'', ''final''])\<rparr>,
      [RenderInvoked 0, RenderSettled 0 Fulfilled, RenderInvoked 1, RenderSettled 1 Fulfilled,
       RenderFinal, GetSize, ResizeTo (Vector2 2 1)])"
    by (simp add: render_defs insertion_order_def example_defs)
  from renderFinal_once_after_operations_before_getSize[OF run] run show ?thesis
    by (simp add: example_render_image_def)
qed

subsection \<open>The resizing phase\<close>

text \<open>
  Claim C6. Take a pass that reaches the resizing phase: the validations and the
  rendering phase are fulfilled, leaving the renderer \<open>r\<close>, and the dimensions
  resolve to \<open>finalDimensions\<close>. If these equal the renderer's size, the pass is
  fulfilled, the renderer is left as it is and there is no \<^verbatim>\<open>resizeTo\<close> call
  in the whole trace. Otherwise the trace holds exactly one \<^verbatim>\<open>resizeTo\<close> call,
  with the resolved dimensions, as its last call, and the pass settles as that call
  does.
\<close>

theorem resize_skipped_iff_size_unchanged:
  assumes valid: "validate_all (ri_stack ri) = Fulfilled"
    and rendered: "render_phase order pf (ri_stack ri) (ri_renderer ri) = (Fulfilled, r, evs)"
    and resolved: "ri_dimensions ri (renderer_getSize pf r) = Inr finalDimensions"
    and run: "RenderImage_render order pf ri = (out, ri', trace)"
  shows "if equals finalDimensions (renderer_getSize pf r)
         then out = Fulfilled \<and> ri_renderer ri' = r \<and> filter is_resizeTo trace = []
         else (out, ri_renderer ri') = renderer_resizeTo pf finalDimensions r
              \<and> filter is_resizeTo trace = [ResizeTo finalDimensions]
              \<and> last trace = ResizeTo finalDimensions"
proof (cases "equals finalDimensions (renderer_getSize pf r)")
  case True
  with resolved have "resize_phase pf (ri_dimensions ri) r = (Fulfilled, r, [GetSize])"
    by (simp add: resize_phase_def)
  with valid rendered run
  have "out = Fulfilled" "ri' = ri\<lparr>ri_renderer := r\<rparr>" "trace = evs @ [GetSize]"
    by (simp_all add: RenderImage_render_def)
  with render_phase_no_resizeTo[OF rendered] True show ?thesis by simp
next
  case False
  obtain o3 r3 where rz: "renderer_resizeTo pf finalDimensions r = (o3, r3)"
    by (cases "renderer_resizeTo pf finalDimensions r")
  with resolved False have
    "resize_phase pf (ri_dimensions ri) r = (o3, r3, [GetSize, ResizeTo finalDimensions])"
    by (simp add: resize_phase_def)
  with valid rendered run have "out = o3" "ri' = ri\<lparr>ri_renderer := r3\<rparr>"
    "trace = evs @ [GetSize, ResizeTo finalDimensions]"
    by (simp_all add: RenderImage_render_def)
  with render_phase_no_resizeTo[OF rendered] False rz show ?thesis by simp
qed

theorem resize_skipped_iff_size_unchanged_witness:
  "fst (RenderImage_render insertion_order (example_platform True True)
          (example_render_image [example_operation ''crop'' False Fulfilled Fulfilled] Inr))
     = Fulfilled
   \<and> filter is_resizeTo (snd (snd (RenderImage_render insertion_order (example_platform True True)
          (example_render_image [example_operation ''crop'' False Fulfilled Fulfilled] Inr))))
     = []
   \<and> filter is_resizeTo (snd (snd (RenderImage_render insertion_order (example_platform True True)
          (example_render_image [example_operation ''crop'' False Fulfilled Fulfilled] halve))))
     = [ResizeTo (Vector2 2 1)]
   \<and> last (snd (snd (RenderImage_render insertion_order (example_platform True True)
          (example_render_image [example_operation ''crop'' False Fulfilled Fulfilled] halve))))
     = ResizeTo (Vector2 2 1)"
proof -
  let ?pf = "example_platform True True"
  let ?stack = "[example_operation ''crop'' False Fulfilled Fulfilled]"
  let ?r = "(Vector2 4 2, [''image'', ''crop'', ''final''])"
  let ?evs = "[RenderInvoked 0, RenderSettled 0 Fulfilled, RenderFinal]"
  have valid: "validate_all (ri_stack (example_render_image ?stack dims)) = Fulfilled" for dims
    by (simp add: example_defs)
  have rendered: "render_phase insertion_order ?pf (ri_stack (example_render_image ?stack dims))
      (ri_renderer (example_render_image ?stack dims)) = (Fulfilled, ?r, ?evs)" for dims
    by (simp add: render_defs insertion_order_def example_defs)
  have same: "ri_dimensions (example_render_image ?stack Inr) (renderer_getSize ?pf ?r)
      = Inr (Vector2 4 2)"
    by (simp add: example_defs)
  have half: "ri_dimensions (example_render_image ?stack halve) (renderer_getSize ?pf ?r)
      = Inr (Vector2 2 1)"
    by (simp add: example_defs)
  let ?skip = "RenderImage_render insertion_order ?pf (example_render_image ?stack Inr)"
  let ?resize = "RenderImage_render insertion_order ?pf (example_render_image ?stack halve)"
  have run1: "?skip = (fst ?skip, fst (snd ?skip), snd (snd ?skip))" by simp
  have run2: "?resize = (fst ?resize, fst (snd ?resize), snd (snd ?resize))" by simp
  from resize_skipped_iff_size_unchanged[OF valid rendered same run1]
  have "fst ?skip = Fulfilled \<and> filter is_resizeTo (snd (snd ?skip)) = []"
    by (simp add: equals_def example_platform_def)
  moreover from resize_skipped_iff_size_unchanged[OF valid rendered half run2]
  have "filter is_resizeTo (snd (snd ?resize)) = [ResizeTo (Vector2 2 1)]
        \<and> last (snd (snd ?resize)) = ResizeTo (Vector2 2 1)"
    by (simp add: equals_def example_platform_def)
  ultimately show ?thesis by simp
qed

subsection \<open>The stack\<close>






text \<open>
  The hypothesis on the operations is needed: a write that an operation makes to the
  caller's array stays after the pass.
\<close>

lemma operation_writing_the_array:
  "w_stack (ri_renderer (fst (snd (RenderImage_render insertion_order example_world_platform
      (example_world_render_image [0, 2] Inr))))) = [0]"
  by (simp add: render_defs insertion_order_def example_world_render_image_def
        example_table_def example_world_platform_def)

section \<open>Choosing the backend\<close>

text \<open>
  Claim C4, amended. \<^verbatim>\<open>_initRenderer\<close> probes the WebGL backend first. It
  selects WebGL when WebGL reports support and the caller did not ask for
  \<^verbatim>\<open>"canvas"\<close>; otherwise it selects the canvas backend when that reports
  support. Construction fails exactly when the canvas backend reports no support and
  WebGL either reports no support or was ruled out by the caller's preference; the
  error then is the one with the message "Neither Canvas nor WebGL renderer are
  supported.", raised after both probes and before any renderer is built.
\<close>

theorem initRenderer_selection:
  "hd (snd (initRenderer pf preferredRenderer initialDimensions img)) = IsSupported WebGL
   \<and> (WebGLRenderer_isSupported pf \<and> preferredRenderer \<noteq> Some ''canvas''
        \<longrightarrow> initRenderer pf preferredRenderer initialDimensions img
              = (Inr (WebGL, renderer_drawImage pf img (new_WebGLRenderer pf initialDimensions)),
                 [IsSupported WebGL, NewRenderer WebGL initialDimensions, DrawImage]))
   \<and> (\<not> (WebGLRenderer_isSupported pf \<and> preferredRenderer \<noteq> Some ''canvas'')
        \<and> CanvasRenderer_isSupported pf
        \<longrightarrow> initRenderer pf preferredRenderer initialDimensions img
              = (Inr (Canvas, renderer_drawImage pf img (new_CanvasRenderer pf initialDimensions)),
                 [IsSupported WebGL, IsSupported Canvas, NewRenderer Canvas initialDimensions,
                  DrawImage]))
   \<and> ((\<exists>e. fst (initRenderer pf preferredRenderer initialDimensions img) = Inl e)
        = (\<not> CanvasRenderer_isSupported pf
           \<and> (\<not> WebGLRenderer_isSupported pf \<or> preferredRenderer = Some ''canvas'')))
   \<and> (\<forall>e. fst (initRenderer pf preferredRenderer initialDimensions img) = Inl e
        \<longrightarrow> e = Error ''Neither Canvas nor WebGL renderer are supported.''
            \<and> snd (initRenderer pf preferredRenderer initialDimensions img)
                = [IsSupported WebGL, IsSupported Canvas])"
  by (auto simp: initRenderer_def)

theorem initRenderer_selection_witness:
  "initRenderer (example_platform True True) (Some ''canvas'') (Vector2 4 2) example_image
     = (Inr (Canvas, (Vector2 4 2, [''canvas'', ''image''])),
        [IsSupported WebGL, IsSupported Canvas, NewRenderer Canvas (Vector2 4 2), DrawImage])
   \<and> initRenderer (example_platform True True) None (Vector2 4 2) example_image
     = (Inr (WebGL, (Vector2 4 2, [''webgl'', ''image''])),
        [IsSupported WebGL, NewRenderer WebGL (Vector2 4 2), DrawImage])
   \<and> fst (initRenderer (example_platform False False) None (Vector2 4 2) example_image)
     = Inl (Error ''Neither Canvas nor WebGL renderer are supported.'')"
  using initRenderer_selection[of "example_platform True True" "Some ''canvas''" "Vector2 4 2"
      example_image]
    initRenderer_selection[of "example_platform True True" None "Vector2 4 2" example_image]
    initRenderer_selection[of "example_platform False False" None "Vector2 4 2" example_image]
  by (auto simp: example_platform_def)

text \<open>
  The claim as first stated has construction fail exactly when neither backend
  reports support. With the canvas backend asked for and not supported, construction
  fails although WebGL reports support.
\<close>

theorem initRenderer_fails_with_webgl_supported:
  "fst (initRenderer (example_platform True False) (Some ''canvas'') (Vector2 4 2) example_image)
     = Inl (Error ''Neither Canvas nor WebGL renderer are supported.'')
   \<and> WebGLRenderer_isSupported (example_platform True False)"
  by (simp add: initRenderer_def example_platform_def)

section \<open>ImglyKit.render without an image\<close>

text \<open>
  Claim C10. When the options hold no image, \<^verbatim>\<open>ImglyKit.render\<close> throws, as the
  call itself and not as a rejected promise, the error with the message
  "`options.image` is undefined."; nothing has been called by then: no validation
  of the export settings, no construction of a \<^verbatim>\<open>RenderImage\<close>, no probe and
  no renderer.
\<close>

theorem render_without_image_throws_first:
  assumes "options_image kit = None"
  shows "ImglyKit_render order pf kit renderType imageFormat dimensions
           = (Inl (Error ''`options.image` is undefined.''), [])"
  using assms by (simp add: ImglyKit_render_def)

theorem render_without_image_throws_first_witness:
  "ImglyKit_render insertion_order (example_platform True True)
     \<lparr>options_image = None, options_renderer = None,
      operationsStack = [example_operation ''crop'' False Fulfilled Fulfilled]\<rparr>
     None None None
   = (Inl (Error ''`options.image` is undefined.''), [])"
  by (rule render_without_image_throws_first) simp

section \<open>The canvas renderer\<close>

lemma over_transparent: "over p transparent = p"
  by (cases p) (simp add: transparent_def)

text \<open>
  A whole number of at most 2147483647 is kept as it is by the attributes, and a
  size read from a surface is assigned back unchanged.
\<close>

lemma unsigned_long_of_nat: "n < 4294967296 \<Longrightarrow> unsigned_long (real n) = n"
proof -
  assume n: "n < 4294967296"
  have "unsigned_long (real n) = nat (int n mod 4294967296)"
    by (simp add: unsigned_long_def)
  also from n have "int n mod 4294967296 = int n" by simp
  finally show ?thesis by simp
qed

lemma canvas_dimension_in_range:
  assumes "n \<le> 2147483647"
  shows "unat (canvas_dimension dflt (real n)) = n"
proof -
  from assms have "unsigned_long (real n) = n" by (simp add: unsigned_long_of_nat)
  with assms show ?thesis by (simp add: canvas_dimension_def unat_of_nat)
qed

lemma canvas_dimension_read_back: "canvas_dimension dflt (real (unat w)) = w"
proof -
  have lt: "unat w < 2147483648" using unsigned_less[of w] by simp
  then have "unsigned_long (real (unat w)) = unat w" by (intro unsigned_long_of_nat) simp
  with lt show ?thesis unfolding canvas_dimension_def by simp
qed

text \<open>
  What \<^verbatim>\<open>resizeTo\<close> and \<^verbatim>\<open>cloneCanvas\<close> leave, when the renderer's canvas is a
  canvas of the store.
\<close>

lemma resizeTo_eq:
  assumes "this_canvas cr < length st"
  shows "resizeTo rs dimensions (st, cr) =
     (st @ [\<lparr>width = canvas_dimension 300 (vec_x dimensions),
             height = canvas_dimension 150 (vec_y dimensions),
             bitmap = (\<lambda>i j. if i < unat (canvas_dimension 300 (vec_x dimensions))
                                 \<and> j < unat (canvas_dimension 150 (vec_y dimensions))
                              then source_pixel rs (st ! this_canvas cr) 0 0
                                     (unat (width (st ! this_canvas cr)))
                                     (unat (height (st ! this_canvas cr)))
                                     (unat (canvas_dimension 300 (vec_x dimensions)))
                                     (unat (canvas_dimension 150 (vec_y dimensions))) i j
                              else transparent)\<rparr>],
      cr\<lparr>this_canvas := length st, this_context := length st\<rparr>)"
  using assms
  by (simp add: resizeTo_def createCanvas_def set_canvas_width_def set_canvas_height_def
        getContext2d_def context_drawImage_def setCanvas_def Let_def nth_append over_transparent
        fun_eq_iff)

lemma canvas_dimension_unsigned: "canvas_dimension dflt (unsigned w) = w"
  using canvas_dimension_read_back[of dflt w] by simp

lemma cloneCanvas_eq:
  assumes "this_canvas cr < length st"
  shows "cloneCanvas rs (st, cr) =
     (length st,
      st @ [\<lparr>width = width (st ! this_canvas cr), height = height (st ! this_canvas cr),
             bitmap = (\<lambda>i j. if i < unat (width (st ! this_canvas cr))
                                 \<and> j < unat (height (st ! this_canvas cr))
                              then bitmap (st ! this_canvas cr) i j
                              else transparent)\<rparr>],
      cr)"
  using assms
  by (simp add: cloneCanvas_def createCanvas_def set_canvas_width_def set_canvas_height_def
        getContext2d_def context_drawImage_def context_drawImage3_def source_pixel_def
        Let_def nth_append over_transparent fun_eq_iff canvas_dimension_unsigned)

text \<open>
  Claim C7, amended. \<^verbatim>\<open>resizeTo(dimensions)\<close> allocates one new surface and
  leaves the surfaces there were as they are. The width and the height of the new
  surface are what the canvas attributes make of the numbers given: the numbers
  themselves when they are whole numbers from 0 to 2147483647, and otherwise the
  number truncated towards zero and taken modulo \<open>2^32\<close>, or the default (300,
  150) when that is above 2147483647. Each pixel of the new surface is the one the 2D
  context draws when the source rectangle is the whole old surface (from the origin,
  its full width and height) and the destination rectangle the whole new surface, so
  the old content is stretched and not cropped; and the new surface, with its
  context, becomes the renderer's active one.
\<close>

theorem resizeTo_allocates_stretches_replaces:
  assumes "this_canvas cr < length st"
    and "resizeTo rs dimensions (st, cr) = (st', cr')"
  shows "this_canvas cr' = length st \<and> this_context cr' = getContext2d (length st)
       \<and> st' = st @ [st' ! this_canvas cr']
       \<and> width (st' ! this_canvas cr') = canvas_dimension 300 (vec_x dimensions)
       \<and> height (st' ! this_canvas cr') = canvas_dimension 150 (vec_y dimensions)
       \<and> (\<forall>nx ny. dimensions = Vector2 (real nx) (real ny)
                    \<and> nx \<le> 2147483647 \<and> ny \<le> 2147483647
            \<longrightarrow> unat (width (st' ! this_canvas cr')) = nx
                \<and> unat (height (st' ! this_canvas cr')) = ny)
       \<and> (\<forall>i<unat (width (st' ! this_canvas cr')). \<forall>j<unat (height (st' ! this_canvas cr')).
            bitmap (st' ! this_canvas cr') i j
              = source_pixel rs (st ! this_canvas cr) 0 0
                  (unat (width (st ! this_canvas cr))) (unat (height (st ! this_canvas cr)))
                  (unat (width (st' ! this_canvas cr'))) (unat (height (st' ! this_canvas cr')))
                  i j)"
  using assms(2) unfolding resizeTo_eq[OF assms(1)]
  by (auto simp: getContext2d_def canvas_dimension_in_range)

theorem resizeTo_allocates_stretches_replaces_witness:
  "this_canvas (snd (resizeTo nearest_neighbour (Vector2 4 2)
       (example_store, example_canvas_renderer))) = 1
   \<and> width (fst (resizeTo nearest_neighbour (Vector2 4 2)
       (example_store, example_canvas_renderer)) ! 1) = 4
   \<and> height (fst (resizeTo nearest_neighbour (Vector2 4 2)
       (example_store, example_canvas_renderer)) ! 1) = 2
   \<and> bitmap (fst (resizeTo nearest_neighbour (Vector2 4 2)
       (example_store, example_canvas_renderer)) ! 1) 3 1 = Pixel 1 0 0 255"
proof -
  let ?res = "resizeTo nearest_neighbour (Vector2 4 2) (example_store, example_canvas_renderer)"
  have valid: "this_canvas example_canvas_renderer < length example_store"
    by (simp add: example_store_def example_canvas_renderer_def)
  have run: "?res = (fst ?res, snd ?res)" by simp
  have four: "canvas_dimension 300 4 = 4" and two: "canvas_dimension 150 2 = 2"
    by (simp_all add: canvas_dimension_def unsigned_long_def)
  from resizeTo_allocates_stretches_replaces[OF valid run] have
    "this_canvas (snd ?res) = length example_store"
    "width (fst ?res ! this_canvas (snd ?res)) = 4"
    "height (fst ?res ! this_canvas (snd ?res)) = 2"
    "\<forall>i<unat (width (fst ?res ! this_canvas (snd ?res))).
       \<forall>j<unat (height (fst ?res ! this_canvas (snd ?res))).
         bitmap (fst ?res ! this_canvas (snd ?res)) i j
           = source_pixel nearest_neighbour (example_store ! this_canvas example_canvas_renderer) 0 0
               (unat (width (example_store ! this_canvas example_canvas_renderer)))
               (unat (height (example_store ! this_canvas example_canvas_renderer)))
               (unat (width (fst ?res ! this_canvas (snd ?res))))
               (unat (height (fst ?res ! this_canvas (snd ?res)))) i j"
    by (auto simp: four two)
  then show ?thesis
    by (simp add: example_store_def example_canvas_renderer_def source_pixel_def
          nearest_neighbour_def)
qed

text \<open>
  The claim as first stated gives the new surface the width and the height of the
  dimensions given, whatever they are. Asked for 4294967297 by 2.5, \<^verbatim>\<open>resizeTo\<close>
  leaves a surface of 1 by 2.
\<close>

theorem resizeTo_dimensions_converted:
  "unat (width (fst (resizeTo nearest_neighbour (Vector2 4294967297 (5 / 2))
       (example_store, example_canvas_renderer)) ! 1)) = 1
   \<and> unat (height (fst (resizeTo nearest_neighbour (Vector2 4294967297 (5 / 2))
       (example_store, example_canvas_renderer)) ! 1)) = 2
   \<and> real (unat (width (fst (resizeTo nearest_neighbour (Vector2 4294967297 (5 / 2))
       (example_store, example_canvas_renderer)) ! 1))) \<noteq> vec_x (Vector2 4294967297 (5 / 2))
   \<and> real (unat (height (fst (resizeTo nearest_neighbour (Vector2 4294967297 (5 / 2))
       (example_store, example_canvas_renderer)) ! 1))) \<noteq> vec_y (Vector2 4294967297 (5 / 2))"
proof -
  have valid: "this_canvas example_canvas_renderer < length example_store"
    by (simp add: example_store_def example_canvas_renderer_def)
  have w: "unat (canvas_dimension 300 4294967297) = 1"
    and h: "unat (canvas_dimension 150 (5 / 2)) = 2"
    by (simp_all add: canvas_dimension_def unsigned_long_def)
  show ?thesis
    unfolding resizeTo_eq[OF valid]
    by (simp add: example_store_def w h)
qed

text \<open>
  Claim C8. \<^verbatim>\<open>cloneCanvas()\<close> returns a surface that was not in the store
  before, so an object other than the active surface; it has the width, the height
  and, pixel for pixel, the content of the active surface; the renderer object is
  unchanged, and so is the active surface with its content.
\<close>

theorem cloneCanvas_copies_without_disturbing:
  assumes "this_canvas cr < length st"
    and "cloneCanvas rs (st, cr) = (canvas, st', cr')"
  shows "canvas = length st \<and> canvas \<noteq> this_canvas cr
       \<and> st' = st @ [st' ! canvas]
       \<and> width (st' ! canvas) = width (st ! this_canvas cr)
       \<and> height (st' ! canvas) = height (st ! this_canvas cr)
       \<and> (\<forall>i<unat (width (st ! this_canvas cr)). \<forall>j<unat (height (st ! this_canvas cr)).
            bitmap (st' ! canvas) i j = bitmap (st ! this_canvas cr) i j)
       \<and> cr' = cr
       \<and> st' ! this_canvas cr = st ! this_canvas cr"
  using assms unfolding cloneCanvas_eq[OF assms(1)] by (auto simp: nth_append)

theorem cloneCanvas_copies_without_disturbing_witness:
  "fst (cloneCanvas nearest_neighbour (example_store, example_canvas_renderer)) = 1
   \<and> width (fst (snd (cloneCanvas nearest_neighbour
       (example_store, example_canvas_renderer))) ! 1) = 2
   \<and> height (fst (snd (cloneCanvas nearest_neighbour
       (example_store, example_canvas_renderer))) ! 1) = 1
   \<and> bitmap (fst (snd (cloneCanvas nearest_neighbour
       (example_store, example_canvas_renderer))) ! 1) 1 0 = Pixel 1 0 0 255
   \<and> snd (snd (cloneCanvas nearest_neighbour (example_store, example_canvas_renderer)))
       = example_canvas_renderer
   \<and> fst (snd (cloneCanvas nearest_neighbour (example_store, example_canvas_renderer))) ! 0
       = example_store ! 0"
proof -
  let ?res = "cloneCanvas nearest_neighbour (example_store, example_canvas_renderer)"
  have valid: "this_canvas example_canvas_renderer < length example_store"
    by (simp add: example_store_def example_canvas_renderer_def)
  have run: "?res = (fst ?res, fst (snd ?res), snd (snd ?res))" by simp
  from cloneCanvas_copies_without_disturbing[OF valid run] have
    "fst ?res = length example_store"
    "width (fst (snd ?res) ! fst ?res) = width (example_store ! this_canvas example_canvas_renderer)"
    "height (fst (snd ?res) ! fst ?res) = height (example_store ! this_canvas example_canvas_renderer)"
    "\<forall>i<unat (width (example_store ! this_canvas example_canvas_renderer)).
       \<forall>j<unat (height (example_store ! this_canvas example_canvas_renderer)).
         bitmap (fst (snd ?res) ! fst ?res) i j
           = bitmap (example_store ! this_canvas example_canvas_renderer) i j"
    "snd (snd ?res) = example_canvas_renderer"
    "fst (snd ?res) ! this_canvas example_canvas_renderer
       = example_store ! this_canvas example_canvas_renderer"
    by auto
  then show ?thesis
    by (simp add: example_store_def example_canvas_renderer_def)
qed

end
